theory Spec2Isabelle
  imports Complex_Main "HOL-Library.Sublist"
begin

section \<open>JavaScript values used by the route handler\<close>

text \<open>
  A JavaScript number is NaN, an infinity, or a finite value. Every finite double is a
  real number, and the three operations the handler applies to numbers (\<open>Math.floor\<close>,
  \<open>Math.max\<close>, \<open>Math.min\<close>) are exact on doubles, so finite values are modelled as reals.
\<close>

datatype jsnum = NaN | NegInfinity | Finite real | Infinity

text \<open>A value of TypeScript type \<open>unknown\<close>, as it comes out of a parsed JSON body.\<close>

datatype jsval =
    JUndefined
  | JNull
  | JBoolean bool
  | JNumber jsnum
  | JString string
  | JArray "jsval list"
  | JObject "(string \<times> jsval) list"

text \<open>What a \<open>catch\<close> clause receives: an \<open>Error\<close> with its message, or any other value.\<close>

datatype thrown = Error string | NonError

fun Math_floor :: "jsnum \<Rightarrow> jsnum" where
  "Math_floor (Finite r) = Finite (of_int \<lfloor>r\<rfloor>)"
| "Math_floor x = x"

fun Math_max :: "jsnum \<Rightarrow> jsnum \<Rightarrow> jsnum" where
  "Math_max NaN y = NaN"
| "Math_max x NaN = NaN"
| "Math_max Infinity y = Infinity"
| "Math_max x Infinity = Infinity"
| "Math_max NegInfinity y = y"
| "Math_max x NegInfinity = x"
| "Math_max (Finite a) (Finite b) = Finite (max a b)"

fun Math_min :: "jsnum \<Rightarrow> jsnum \<Rightarrow> jsnum" where
  "Math_min NaN y = NaN"
| "Math_min x NaN = NaN"
| "Math_min NegInfinity y = NegInfinity"
| "Math_min x NegInfinity = NegInfinity"
| "Math_min Infinity y = y"
| "Math_min x Infinity = x"
| "Math_min (Finite a) (Finite b) = Finite (min a b)"

definition Number_isNaN :: "jsnum \<Rightarrow> bool" where
  "Number_isNaN x = (x = NaN)"

text \<open>The relational operator \<open><\<close> on numbers: false as soon as one side is NaN.\<close>

fun js_less :: "jsnum \<Rightarrow> jsnum \<Rightarrow> bool" where
  "js_less NaN y = False"
| "js_less x NaN = False"
| "js_less Infinity y = False"
| "js_less x NegInfinity = False"
| "js_less NegInfinity y = True"
| "js_less x Infinity = True"
| "js_less (Finite a) (Finite b) = (a < b)"

text \<open>\<open>xs.length\<close> as a number.\<close>

definition js_length :: "'a list \<Rightarrow> jsnum" where
  "js_length xs = Finite (real (length xs))"

text \<open>
  \<open>xs.slice(0, end)\<close> for a numeric \<open>end\<close>: the end is converted to an integer (NaN to 0,
  truncation toward zero), a negative end counts from the back, and the result stops at
  the end of the array.
\<close>

definition js_truncate :: "real \<Rightarrow> int" where
  "js_truncate r = (if r < 0 then \<lceil>r\<rceil> else \<lfloor>r\<rfloor>)"

fun slice0 :: "'a list \<Rightarrow> jsnum \<Rightarrow> 'a list" where
  "slice0 xs NaN = []"
| "slice0 xs NegInfinity = []"
| "slice0 xs Infinity = xs"
| "slice0 xs (Finite r) =
     (let k = js_truncate r
      in if k < 0 then take (nat (max (int (length xs) + k) 0)) xs else take (nat k) xs)"

text \<open>\<open>xs.slice(start, end)\<close> for array indices \<open>start\<close> and \<open>end\<close>.\<close>

definition slice :: "'a list \<Rightarrow> nat \<Rightarrow> nat \<Rightarrow> 'a list" where
  "slice xs start end = take (end - start) (drop start xs)"

text \<open>\<open>xs[i]\<close> on an array of optional values: reading past the end gives \<open>undefined\<close>.\<close>

definition elementAt :: "'a option list \<Rightarrow> nat \<Rightarrow> 'a option" where
  "elementAt xs i = (if i < length xs then xs ! i else None)"

text \<open>\<open>s.includes(sub)\<close>.\<close>

fun includes_str :: "string \<Rightarrow> string \<Rightarrow> bool" where
  "includes_str [] sub = (sub = [])"
| "includes_str (c # cs) sub = (prefix sub (c # cs) \<or> includes_str cs sub)"

text \<open>
  \<open>s.trim()\<close>. The white space characters are those of ECMAScript that fit the 8-bit
  character type: tab, line feed, vertical tab, form feed, carriage return, space and
  no-break space.
\<close>

definition isWhiteSpace :: "char \<Rightarrow> bool" where
  "isWhiteSpace c = (of_char c \<in> {9, 10, 11, 12, 13, 32, 160 :: nat})"

definition trim :: "string \<Rightarrow> string" where
  "trim s = rev (dropWhile isWhiteSpace (rev (dropWhile isWhiteSpace s)))"

text \<open>The nullish coalescing operator \<open>a ?? b\<close>, with an optional and with a definite right side.\<close>

definition nullish :: "'a option \<Rightarrow> 'a option \<Rightarrow> 'a option" where
  "nullish a b = (case a of Some v \<Rightarrow> Some v | None \<Rightarrow> b)"

definition nullishOr :: "'a option \<Rightarrow> 'a \<Rightarrow> 'a" where
  "nullishOr a b = (case a of Some v \<Rightarrow> v | None \<Rightarrow> b)"

text \<open>A string used as a condition: \<open>undefined\<close> and the empty string are falsy.\<close>

definition truthy :: "string option \<Rightarrow> bool" where
  "truthy s = (case s of None \<Rightarrow> False | Some v \<Rightarrow> v \<noteq> [])"

text \<open>Decimal digits of a natural number, as template literals print an integer.\<close>

function digits :: "nat \<Rightarrow> string" where
  "digits n =
     (if n < 10 then [''0123456789'' ! n]
      else digits (n div 10) @ [''0123456789'' ! (n mod 10)])"
  by pat_completeness auto
termination
  by (relation "measure id") auto

declare digits.simps [simp del]

text \<open>
  Number-to-string conversion inside a template literal. ECMAScript prints the shortest
  decimal that reads back as the same double. For an integer of magnitude below \<open>2^53\<close>
  these are its own decimal digits: neighbouring doubles are at most 1 apart there, so
  no shorter decimal padded with zeros reads back as it. For every other finite number
  (a fraction, or an integer from \<open>2^53\<close> on, where the digits are rounded and padded with
  zeros or written with an exponent) the rendering belongs to the language runtime and
  is the parameter \<open>render\<close>.
\<close>

definition numberToString :: "(real \<Rightarrow> string) \<Rightarrow> jsnum \<Rightarrow> string" where
  "numberToString render x =
     (case x of
        NaN \<Rightarrow> ''NaN''
      | NegInfinity \<Rightarrow> ''-Infinity''
      | Infinity \<Rightarrow> ''Infinity''
      | Finite r \<Rightarrow>
          if r = of_int \<lfloor>r\<rfloor> \<and> \<bar>r\<bar> < 2 ^ 53
          then (if r < 0 then ''-'' else '''') @ digits (nat \<bar>\<lfloor>r\<rfloor>\<bar>)
          else render r)"

text \<open>
  A rendering to run the examples with; their coordinates are small integers, so it is
  never consulted.
\<close>

definition noDigits :: "real \<Rightarrow> string" where
  "noDigits r = []"

section \<open>Data model\<close>

record Location =
  lat :: "jsnum option"
  lng :: "jsnum option"

record Geometry =
  location :: "Location option"

record TextSearchPlace =
  place_id :: string
  name :: "string option"
  formatted_address :: "string option"
  business_status :: "string option"
  geometry :: "Geometry option"
  types :: "string list option"

record PlaceDetails =
  name :: "string option"
  formatted_phone_number :: "string option"
  international_phone_number :: "string option"
  formatted_address :: "string option"
  url :: "string option"
  website :: "string option"
  business_status :: "string option"
  geometry :: "Geometry option"
  types :: "string list option"

record PlaceRecord =
  name :: string
  formattedAddress :: string
  phoneNumber :: "string option"
  googleMapsUrl :: "string option"
  website :: "string option"
  latitude :: "jsnum option"
  longitude :: "jsnum option"
  businessStatus :: "string option"
  types :: "string list option"

definition MAX_TOTAL_RESULTS :: jsnum where
  "MAX_TOTAL_RESULTS = Finite 60"

text \<open>The object \<open>{}\<close> read as a \<open>PlaceDetails\<close>: every field is \<open>undefined\<close>.\<close>

definition emptyDetails :: PlaceDetails where
  "emptyDetails =
     \<lparr> PlaceDetails.name = None, formatted_phone_number = None,
       international_phone_number = None, PlaceDetails.formatted_address = None,
       url = None, PlaceDetails.website = None, PlaceDetails.business_status = None,
       PlaceDetails.geometry = None, PlaceDetails.types = None \<rparr>"

section \<open>The normalizer: \<open>toRecord\<close>\<close>

definition toRecord :: "(real \<Rightarrow> string) \<Rightarrow> TextSearchPlace \<Rightarrow> PlaceDetails option \<Rightarrow> PlaceRecord" where
  "toRecord render summary details =
     (let source = nullishOr details emptyDetails;
          phone = nullishOr (nullish (formatted_phone_number source)
                                     (international_phone_number source)) [];
          lat = nullish (Option.bind (Option.bind (PlaceDetails.geometry source) Geometry.location) Location.lat)
                        (Option.bind (Option.bind (TextSearchPlace.geometry summary) Geometry.location) Location.lat);
          lng = nullish (Option.bind (Option.bind (PlaceDetails.geometry source) Geometry.location) Location.lng)
                        (Option.bind (Option.bind (TextSearchPlace.geometry summary) Geometry.location) Location.lng);
          googleMapsUrl =
            nullish (url source)
              (if lat \<noteq> None \<and> lng \<noteq> None
               then Some (''https://www.google.com/maps/search/?api=1&query=''
                            @ numberToString render (the lat) @ '','' @ numberToString render (the lng)
                            @ ''&query_place_id='' @ place_id summary)
               else None)
      in \<lparr> PlaceRecord.name =
             nullishOr (nullish (PlaceDetails.name source) (TextSearchPlace.name summary)) ''Unknown'',
           formattedAddress =
             nullishOr (nullish (PlaceDetails.formatted_address source)
                                (TextSearchPlace.formatted_address summary)) ''Address unavailable'',
           phoneNumber = (if phone = [] then None else Some phone),
           googleMapsUrl = googleMapsUrl,
           PlaceRecord.website = nullish (PlaceDetails.website source) None,
           latitude = lat,
           longitude = lng,
           businessStatus =
             nullish (PlaceDetails.business_status source) (TextSearchPlace.business_status summary),
           PlaceRecord.types = nullish (PlaceDetails.types source) (TextSearchPlace.types summary) \<rparr>)"

section \<open>Sanitising the requested maximum: \<open>sanitizeMaxResults\<close>\<close>

definition sanitizeMaxResults :: "jsval \<Rightarrow> jsnum" where
  "sanitizeMaxResults raw =
     (case raw of
        JNumber x \<Rightarrow>
          if Number_isNaN x then MAX_TOTAL_RESULTS
          else Math_min MAX_TOTAL_RESULTS (Math_max (Finite 1) (Math_floor x))
      | _ \<Rightarrow> MAX_TOTAL_RESULTS)"

section \<open>The remote service and the effects of a run\<close>

text \<open>
  What \<open>fetch\<close> and \<open>response.json()\<close> give for one request: \<open>fetch\<close> itself rejects, or
  there is a response with its \<open>ok\<close> flag, its HTTP status, and a body whose parsing
  either throws or yields the payload.
\<close>

datatype 'p reply = FetchFailed thrown | Response bool nat "thrown + 'p"

record SearchPayload =
  status :: string
  results :: "TextSearchPlace list"
  next_page_token :: "string option"
  error_message :: "string option"

record DetailsPayload =
  status :: string
  result :: "PlaceDetails option"
  error_message :: "string option"

text \<open>
  The remote service is a black box: it may answer the \<open>n\<close>-th text search request of a
  run, and the detail lookup for the \<open>i\<close>-th retained summary, in any way. The lookups of
  one batch run concurrently; \<open>detailsSettled i\<close> is the moment at which lookup \<open>i\<close>
  settles.
\<close>

record remote =
  textSearchReply :: "nat \<Rightarrow> SearchPayload reply"
  detailsReply :: "nat \<Rightarrow> DetailsPayload reply"
  detailsSettled :: "nat \<Rightarrow> nat"

text \<open>
  The effects of a run, in the order in which they are started: a pause of so many
  milliseconds, a text search request (query, page token, key) and a detail request
  (place id, key).
\<close>

datatype event =
    Sleep nat
  | TextSearchRequest string "string option" string
  | DetailsRequest string string

definition quotaMessage :: string where
  "quotaMessage = ''Google Places quota exceeded. Wait before trying again or adjust your API usage.''"

section \<open>The detail fetcher: \<open>fetchPlaceDetails\<close>\<close>

text \<open>The function applied to the reply that its \<open>fetch\<close> receives.\<close>

definition fetchPlaceDetails :: "DetailsPayload reply \<Rightarrow> thrown + PlaceDetails option" where
  "fetchPlaceDetails reply =
     (case reply of
        FetchFailed err \<Rightarrow> Inl err
      | Response ok code body \<Rightarrow>
          if \<not> ok then Inr None
          else (case body of
                  Inl err \<Rightarrow> Inl err
                | Inr payload \<Rightarrow>
                    if DetailsPayload.status payload = ''OK'' then Inr (result payload)
                    else if DetailsPayload.status payload = ''NOT_FOUND''
                            \<or> DetailsPayload.status payload = ''ZERO_RESULTS'' then Inr None
                    else if DetailsPayload.status payload = ''OVER_QUERY_LIMIT''
                      then Inl (Error quotaMessage)
                    else Inl (Error (nullishOr (DetailsPayload.error_message payload)
                           (''Google Places Details returned status ''
                              @ DetailsPayload.status payload)))))"

section \<open>The search page fetcher: \<open>fetchTextSearchPage\<close>\<close>

text \<open>The request that is sent: the page token is added only when it is truthy.\<close>

definition textSearchRequest :: "string \<Rightarrow> string \<Rightarrow> string option \<Rightarrow> event" where
  "textSearchRequest searchQuery apiKey pageToken =
     TextSearchRequest searchQuery (if truthy pageToken then pageToken else None) apiKey"

definition fetchTextSearchPage :: "SearchPayload reply \<Rightarrow> thrown + SearchPayload" where
  "fetchTextSearchPage reply =
     (case reply of
        FetchFailed err \<Rightarrow> Inl err
      | Response ok code body \<Rightarrow>
          if \<not> ok then Inl (Error (''Text search failed with status '' @ digits code))
          else (case body of
                  Inl err \<Rightarrow> Inl err
                | Inr payload \<Rightarrow>
                    if SearchPayload.status payload = ''OK''
                       \<or> SearchPayload.status payload = ''ZERO_RESULTS'' then Inr payload
                    else if SearchPayload.status payload = ''OVER_QUERY_LIMIT''
                      then Inl (Error quotaMessage)
                    else if SearchPayload.status payload = ''REQUEST_DENIED''
                            \<or> SearchPayload.status payload = ''INVALID_REQUEST''
                      then Inl (Error (nullishOr (SearchPayload.error_message payload)
                             (''Request denied: '' @ SearchPayload.status payload)))
                    else Inl (Error (nullishOr (SearchPayload.error_message payload)
                           (''Unexpected status: '' @ SearchPayload.status payload)))))"

section \<open>The route handler: \<open>POST\<close>\<close>

record RequestBody =
  apiKey :: jsval
  query :: jsval
  location :: jsval
  maxResults :: jsval

datatype responseBody = Results "PlaceRecord list" | Failure string

record NextResponse =
  body :: responseBody
  status :: nat

text \<open>The \<open>catch\<close> clause around the whole handler.\<close>

definition failure :: "thrown \<Rightarrow> NextResponse" where
  "failure err =
     \<lparr> body = Failure (case err of
                         Error message \<Rightarrow> message
                       | NonError \<Rightarrow> ''Unexpected error while searching for places.''),
       status = 500 \<rparr>"

text \<open>The test \<open>typeof v === "string" && v.trim() !== ""\<close>, giving the string when it holds.\<close>

definition nonBlank :: "jsval \<Rightarrow> string option" where
  "nonBlank v = (case v of JString s \<Rightarrow> if trim s = [] then None else Some s | _ \<Rightarrow> None)"

subsection \<open>The page loop\<close>

text \<open>
  The \<open>do \<dots> while\<close> loop. Its state is the summaries pushed so far, the page token, and
  the number \<open>n\<close> of search requests already sent. The loop need not end (a service that
  keeps handing out tokens with empty pages keeps it running), so the model counts
  iterations down from \<open>fuel\<close> and answers \<open>None\<close> for a run that is still going when the
  fuel is used up.
\<close>

fun searchWalker ::
  "nat \<Rightarrow> remote \<Rightarrow> string \<Rightarrow> string \<Rightarrow> jsnum \<Rightarrow> nat \<Rightarrow> TextSearchPlace list \<Rightarrow> string option
     \<Rightarrow> (thrown + TextSearchPlace list) option \<times> event list" where
  "searchWalker 0 env searchQuery key cleanMaxResults n summaries pageToken = (None, [])"
| "searchWalker (Suc fuel) env searchQuery key cleanMaxResults n summaries pageToken =
     (let started = (if truthy pageToken then [Sleep 2000] else [])
                      @ [textSearchRequest searchQuery key pageToken]
      in case fetchTextSearchPage (textSearchReply env n) of
           Inl err \<Rightarrow> (Some (Inl err), started)
         | Inr page \<Rightarrow>
             let summaries' = summaries @ results page;
                 pageToken' = next_page_token page
             in if truthy pageToken'
                   \<and> js_less (js_length summaries') cleanMaxResults
                   \<and> js_less (js_length summaries') MAX_TOTAL_RESULTS
                then (case searchWalker fuel env searchQuery key cleanMaxResults (Suc n)
                             summaries' pageToken' of
                        (outcome, later) \<Rightarrow> (outcome, started @ later))
                else (Some (Inr summaries'), started))"

declare searchWalker.simps [simp del]

subsection \<open>The batching loop\<close>

definition chunkSize :: nat where
  "chunkSize = 5"

text \<open>
  The function mapped over a batch: \<open>fetchPlaceDetails\<close> inside a \<open>try\<close> whose \<open>catch\<close>
  throws the error again when its message mentions a quota or a denial, and otherwise
  answers \<open>undefined\<close>.
\<close>

definition guardedDetails :: "DetailsPayload reply \<Rightarrow> thrown + PlaceDetails option" where
  "guardedDetails reply =
     (case fetchPlaceDetails reply of
        Inr details \<Rightarrow> Inr details
      | Inl err \<Rightarrow>
          (case err of
             Error message \<Rightarrow>
               if includes_str message ''quota exceeded'' \<or> includes_str message ''Request denied''
               then Inl err else Inr None
           | NonError \<Rightarrow> Inr None))"

text \<open>
  \<open>Promise.all\<close> over promises given with the moment at which each settles: the values in
  the order of the promises when all are fulfilled, and otherwise the reason of the
  rejection that comes first in time (of two at the same moment, the one earlier in the
  array).
\<close>

fun rejections :: "(nat \<times> (thrown + 'a)) list \<Rightarrow> (nat \<times> thrown) list" where
  "rejections [] = []"
| "rejections ((t, Inl err) # ps) = (t, err) # rejections ps"
| "rejections ((t, Inr v) # ps) = rejections ps"

fun fulfilments :: "(nat \<times> (thrown + 'a)) list \<Rightarrow> 'a list" where
  "fulfilments [] = []"
| "fulfilments ((t, Inl err) # ps) = fulfilments ps"
| "fulfilments ((t, Inr v) # ps) = v # fulfilments ps"

fun earliest :: "nat \<times> thrown \<Rightarrow> (nat \<times> thrown) list \<Rightarrow> thrown" where
  "earliest (t, err) [] = err"
| "earliest (t, err) ((t', err') # ps) =
     (if t' < t then earliest (t', err') ps else earliest (t, err) ps)"

definition Promise_all :: "(nat \<times> (thrown + 'a)) list \<Rightarrow> thrown + 'a list" where
  "Promise_all ps =
     (case rejections ps of
        [] \<Rightarrow> Inr (fulfilments ps)
      | first # others \<Rightarrow> Inl (earliest first others))"

text \<open>The promises of the batch that starts at \<open>index\<close> and has \<open>width\<close> members.\<close>

definition batchPromises :: "remote \<Rightarrow> nat \<Rightarrow> nat \<Rightarrow> (nat \<times> (thrown + PlaceDetails option)) list" where
  "batchPromises env index width =
     map (\<lambda>offset. (detailsSettled env (index + offset),
                     guardedDetails (detailsReply env (index + offset)))) [0..<width]"

function enrich ::
  "remote \<Rightarrow> (real \<Rightarrow> string) \<Rightarrow> string \<Rightarrow> TextSearchPlace list \<Rightarrow> nat \<Rightarrow> PlaceRecord list
     \<Rightarrow> (thrown + PlaceRecord list) \<times> event list" where
  "enrich env render key trimmedSummaries index records =
     (if index < length trimmedSummaries
      then (let chunk = slice trimmedSummaries index (index + chunkSize);
                started = map (\<lambda>summary. DetailsRequest (place_id summary) key) chunk
            in case Promise_all (batchPromises env index (length chunk)) of
                 Inl err \<Rightarrow> (Inl err, started)
               | Inr detailsList \<Rightarrow>
                   (case enrich env render key trimmedSummaries (index + chunkSize)
                           (records @ map (\<lambda>(summary, offset).
                                             toRecord render summary (elementAt detailsList offset))
                                          (zip chunk [0..<length chunk])) of
                      (outcome, later) \<Rightarrow> (outcome, started @ later)))
      else (Inr records, []))"
  by pat_completeness auto
termination
  by (relation "measure (\<lambda>(env, render, key, trimmedSummaries, index, records).
                           length trimmedSummaries - index)")
     (auto simp: chunkSize_def)

declare enrich.simps [simp del]

subsection \<open>The handler\<close>

text \<open>
  The request is the outcome of \<open>request.json()\<close> and of destructuring it: either that
  throws, or there are the four fields (\<open>undefined\<close> when missing). The result is the
  response, if the run ends within the fuel, and the effects started.
\<close>

definition POST ::
  "nat \<Rightarrow> remote \<Rightarrow> (real \<Rightarrow> string) \<Rightarrow> thrown + RequestBody \<Rightarrow> NextResponse option \<times> event list" where
  "POST fuel env render request =
     (case request of
        Inl err \<Rightarrow> (Some (failure err), [])
      | Inr parsed \<Rightarrow>
          (case nonBlank (apiKey parsed) of
             None \<Rightarrow> (Some \<lparr> body = Failure ''API key is required.'', status = 400 \<rparr>, [])
           | Some key \<Rightarrow>
               (case nonBlank (query parsed) of
                  None \<Rightarrow> (Some \<lparr> body = Failure ''Search keyword is required.'', status = 400 \<rparr>, [])
                | Some keyword \<Rightarrow>
                    (let cleanMaxResults = sanitizeMaxResults (maxResults parsed);
                         searchQuery = (case nonBlank (location parsed) of
                                          Some place \<Rightarrow> keyword @ '' in '' @ place
                                        | None \<Rightarrow> keyword)
                     in case searchWalker fuel env searchQuery key cleanMaxResults 0 [] None of
                          (None, searches) \<Rightarrow> (None, searches)
                        | (Some (Inl err), searches) \<Rightarrow> (Some (failure err), searches)
                        | (Some (Inr summaries), searches) \<Rightarrow>
                            (let trimmedSummaries = slice0 summaries cleanMaxResults
                             in case enrich env render key trimmedSummaries 0 [] of
                                  (Inl err, lookups) \<Rightarrow> (Some (failure err), searches @ lookups)
                                | (Inr records, lookups) \<Rightarrow>
                                    (Some \<lparr> body = Results records, status = 200 \<rparr>,
                                     searches @ lookups))))))"

section \<open>Vocabulary of the statements\<close>

text \<open>A summary that carries its identifier only, and a geometry with the given coordinates.\<close>

definition bareSummary :: "string \<Rightarrow> TextSearchPlace" where
  "bareSummary pid =
     \<lparr> place_id = pid, TextSearchPlace.name = None, TextSearchPlace.formatted_address = None,
       TextSearchPlace.business_status = None, TextSearchPlace.geometry = None,
       TextSearchPlace.types = None \<rparr>"

definition point :: "jsnum option \<Rightarrow> jsnum option \<Rightarrow> Geometry option" where
  "point la lo = Some \<lparr> Geometry.location = Some \<lparr> lat = la, lng = lo \<rparr> \<rparr>"

text \<open>The coordinates that a detail record (when there is one) and a summary supply.\<close>

definition detailsLat :: "PlaceDetails option \<Rightarrow> jsnum option" where
  "detailsLat details =
     Option.bind (Option.bind (Option.bind details PlaceDetails.geometry) Geometry.location) Location.lat"

definition detailsLng :: "PlaceDetails option \<Rightarrow> jsnum option" where
  "detailsLng details =
     Option.bind (Option.bind (Option.bind details PlaceDetails.geometry) Geometry.location) Location.lng"

definition summaryLat :: "TextSearchPlace \<Rightarrow> jsnum option" where
  "summaryLat summary =
     Option.bind (Option.bind (TextSearchPlace.geometry summary) Geometry.location) Location.lat"

definition summaryLng :: "TextSearchPlace \<Rightarrow> jsnum option" where
  "summaryLng summary =
     Option.bind (Option.bind (TextSearchPlace.geometry summary) Geometry.location) Location.lng"

text \<open>A latitude and a longitude as one pair, present when both are.\<close>

definition coordinates :: "jsnum option \<Rightarrow> jsnum option \<Rightarrow> (jsnum \<times> jsnum) option" where
  "coordinates la lo = (case (la, lo) of (Some x, Some y) \<Rightarrow> Some (x, y) | _ \<Rightarrow> None)"

subsection \<open>The precedence rules in the words of the specification\<close>

text \<open>
  The specification lets a field fall through to the next source when it is absent or
  empty, and treats coordinates as one unit. These three definitions follow its words;
  they are compared with \<open>toRecord\<close> below.
\<close>

definition specifiedName :: "string option \<Rightarrow> string option \<Rightarrow> string" where
  "specifiedName detailName summaryName =
     (if detailName \<noteq> None \<and> detailName \<noteq> Some [] then the detailName
      else if summaryName \<noteq> None \<and> summaryName \<noteq> Some [] then the summaryName
      else ''Unknown'')"

definition specifiedPhone :: "string option \<Rightarrow> string option \<Rightarrow> string option" where
  "specifiedPhone primary secondary =
     (if primary \<noteq> None \<and> primary \<noteq> Some [] then primary
      else if secondary \<noteq> None \<and> secondary \<noteq> Some [] then secondary
      else None)"

definition specifiedCoordinates ::
  "(jsnum \<times> jsnum) option \<Rightarrow> (jsnum \<times> jsnum) option \<Rightarrow> (jsnum \<times> jsnum) option" where
  "specifiedCoordinates detailPair summaryPair =
     (case detailPair of Some pair \<Rightarrow> Some pair | None \<Rightarrow> summaryPair)"

subsection \<open>Observations on a run\<close>

text \<open>How many text search requests, and how many detail requests, a run has started.\<close>

definition searchCount :: "event list \<Rightarrow> nat" where
  "searchCount effects =
     length (filter (\<lambda>e. case e of TextSearchRequest q t k \<Rightarrow> True | _ \<Rightarrow> False) effects)"

definition detailsCount :: "event list \<Rightarrow> nat" where
  "detailsCount effects =
     length (filter (\<lambda>e. case e of DetailsRequest p k \<Rightarrow> True | _ \<Rightarrow> False) effects)"

text \<open>The effects that one turn of the page loop starts.\<close>

definition turnEffects :: "string \<Rightarrow> string \<Rightarrow> string option \<Rightarrow> event list" where
  "turnEffects searchQuery key pageToken =
     (if truthy pageToken then [Sleep 2000] else []) @ [textSearchRequest searchQuery key pageToken]"




subsection \<open>Replies and requests for the examples\<close>

definition okPage :: "TextSearchPlace list \<Rightarrow> string option \<Rightarrow> SearchPayload reply" where
  "okPage places token =
     Response True 200 (Inr \<lparr> SearchPayload.status = ''OK'', results = places,
                               next_page_token = token, SearchPayload.error_message = None \<rparr>)"

definition searchStatus :: "string \<Rightarrow> string option \<Rightarrow> SearchPayload reply" where
  "searchStatus code message =
     Response True 200 (Inr \<lparr> SearchPayload.status = code, results = [],
                               next_page_token = None, SearchPayload.error_message = message \<rparr>)"

definition detailsFound :: "PlaceDetails \<Rightarrow> DetailsPayload reply" where
  "detailsFound details =
     Response True 200 (Inr \<lparr> DetailsPayload.status = ''OK'', result = Some details,
                               DetailsPayload.error_message = None \<rparr>)"

definition detailsStatus :: "string \<Rightarrow> string option \<Rightarrow> DetailsPayload reply" where
  "detailsStatus code message =
     Response True 200 (Inr \<lparr> DetailsPayload.status = code, result = None,
                               DetailsPayload.error_message = message \<rparr>)"

definition searchFor :: "string \<Rightarrow> string \<Rightarrow> jsval \<Rightarrow> thrown + RequestBody" where
  "searchFor key keyword cap =
     Inr \<lparr> apiKey = JString key, query = JString keyword, location = JUndefined, maxResults = cap \<rparr>"

text \<open>A service that finds one place and denies the detail lookup, with no message of its own.\<close>

definition deniedRun :: remote where
  "deniedRun =
     \<lparr> textSearchReply = (\<lambda>n. okPage [bareSummary ''p1''] None),
       detailsReply = (\<lambda>i. detailsStatus ''REQUEST_DENIED'' None),
       detailsSettled = (\<lambda>i. i) \<rparr>"




text \<open>A service that hands out pages of 25 places, each with a token for the next.\<close>

definition crowdedRun :: remote where
  "crowdedRun =
     \<lparr> textSearchReply = (\<lambda>n. okPage (replicate 25 (bareSummary ''p'')) (Some ''next'')),
       detailsReply = (\<lambda>i. detailsFound emptyDetails),
       detailsSettled = (\<lambda>i. i) \<rparr>"

text \<open>A service that finds nothing.\<close>

definition emptyRun :: remote where
  "emptyRun =
     \<lparr> textSearchReply = (\<lambda>n. searchStatus ''ZERO_RESULTS'' None),
       detailsReply = (\<lambda>i. detailsFound emptyDetails),
       detailsSettled = (\<lambda>i. i) \<rparr>"



section \<open>Properties of the normalizer\<close>

lemmas toRecord_unfold = toRecord_def Let_def nullish_def nullishOr_def emptyDetails_def

lemma numberToString_1: "numberToString render (Finite 1) = ''1''"
  by (simp add: numberToString_def digits.simps)

lemma numberToString_2: "numberToString render (Finite 2) = ''2''"
  by (simp add: numberToString_def digits.simps)

text \<open>\<open>includes_str\<close> is the contiguous-substring relation.\<close>

lemma includes_str_sublist: "includes_str s sub \<longleftrightarrow> sublist sub s"
  by (induction s) (auto simp: sublist_Cons_right)

text \<open>
  Claim C3, as the code has it. The name of the merged record is the detail's name when
  the detail is there and has a name, else the summary's name when it has one, else
  \<open>Unknown\<close>; an empty name counts as a name. The merged name is therefore empty exactly
  when the name taken is the empty string.
\<close>

theorem toRecord_name:
  "PlaceRecord.name (toRecord render summary details) =
     (case Option.bind details PlaceDetails.name of
        Some n \<Rightarrow> n
      | None \<Rightarrow> (case TextSearchPlace.name summary of Some n \<Rightarrow> n | None \<Rightarrow> ''Unknown''))
   \<and> (PlaceRecord.name (toRecord render summary details) = [] \<longleftrightarrow>
        Option.bind details PlaceDetails.name = Some []
        \<or> (Option.bind details PlaceDetails.name = None \<and> TextSearchPlace.name summary = Some []))"
  by (cases details) (auto simp: toRecord_unfold split: option.splits)

text \<open>
  The three cases of the specification's example for C3: detail name \<open>B\<close> over summary
  name \<open>A\<close>, summary name \<open>A\<close> without a detail, and neither.
\<close>

theorem toRecord_name_witness:
  "PlaceRecord.name (toRecord noDigits (bareSummary ''p1'' \<lparr> TextSearchPlace.name := Some ''A'' \<rparr>)
       (Some (emptyDetails \<lparr> PlaceDetails.name := Some ''B'' \<rparr>))) = ''B''
   \<and> PlaceRecord.name (toRecord noDigits (bareSummary ''p1'' \<lparr> TextSearchPlace.name := Some ''A'' \<rparr>)
       None) = ''A''
   \<and> PlaceRecord.name (toRecord noDigits (bareSummary ''p1'') None) = ''Unknown''"
  using toRecord_name [of noDigits "bareSummary ''p1'' \<lparr> TextSearchPlace.name := Some ''A'' \<rparr>"
      "Some (emptyDetails \<lparr> PlaceDetails.name := Some ''B'' \<rparr>)"]
    toRecord_name [of noDigits "bareSummary ''p1'' \<lparr> TextSearchPlace.name := Some ''A'' \<rparr>" None]
    toRecord_name [of noDigits "bareSummary ''p1''" None]
  by (simp add: bareSummary_def emptyDetails_def)

text \<open>
  Claim C3 as stated fails: a detail whose name is the empty string wins over the
  summary's name \<open>A\<close>, and the merged name is empty, where the specification's rule gives
  \<open>A\<close>.
\<close>

theorem toRecord_name_empty:
  "PlaceRecord.name (toRecord noDigits (bareSummary ''p1'' \<lparr> TextSearchPlace.name := Some ''A'' \<rparr>)
       (Some (emptyDetails \<lparr> PlaceDetails.name := Some [] \<rparr>))) = []
   \<and> specifiedName (Some []) (Some ''A'') = ''A''"
  by (simp add: toRecord_unfold bareSummary_def specifiedName_def)

text \<open>
  Claim C5, as the code has it. The phone of the merged record is the detail's primary
  number when that is present and not empty; it is absent when the primary number is
  present and empty; when the primary number is absent it is the secondary number if
  that is present and not empty, and absent otherwise. It does not depend on the
  summary.
\<close>

theorem toRecord_phone:
  "phoneNumber (toRecord render summary details) =
     (case details of
        None \<Rightarrow> None
      | Some d \<Rightarrow>
          (case formatted_phone_number d of
             Some p \<Rightarrow> (if p = [] then None else Some p)
           | None \<Rightarrow>
               (case international_phone_number d of
                  Some q \<Rightarrow> (if q = [] then None else Some q)
                | None \<Rightarrow> None)))
   \<and> phoneNumber (toRecord render summary details) = phoneNumber (toRecord render summary' details)"
  by (cases details) (auto simp: toRecord_unfold split: option.splits)

text \<open>
  For C5: a secondary number is used when there is no primary one, and no detail gives
  no phone.
\<close>

theorem toRecord_phone_witness:
  "phoneNumber (toRecord noDigits (bareSummary ''p1'')
       (Some (emptyDetails \<lparr> international_phone_number := Some ''+1 555 0100'' \<rparr>)))
     = Some ''+1 555 0100''
   \<and> phoneNumber (toRecord noDigits (bareSummary ''p1'') None) = None"
  using toRecord_phone [of noDigits "bareSummary ''p1''"
      "Some (emptyDetails \<lparr> international_phone_number := Some ''+1 555 0100'' \<rparr>)" "bareSummary ''p1''"]
    toRecord_phone [of noDigits "bareSummary ''p1''" None "bareSummary ''p1''"]
  by (simp add: emptyDetails_def)

text \<open>
  Claim C5 as stated fails: with an empty primary number and a secondary number, the
  merged record has no phone, where the specification's rule gives the secondary number.
\<close>

theorem toRecord_phone_skips_secondary:
  "phoneNumber (toRecord noDigits (bareSummary ''p1'')
       (Some (emptyDetails \<lparr> formatted_phone_number := Some [],
                              international_phone_number := Some ''+1 555 0100'' \<rparr>))) = None
   \<and> specifiedPhone (Some []) (Some ''+1 555 0100'') = Some ''+1 555 0100''"
  by (simp add: toRecord_unfold bareSummary_def specifiedPhone_def)

text \<open>
  Claim C6, as the code has it. Latitude and longitude fall back each on its own: the
  latitude is the detail's when the detail has one and else the summary's, and likewise
  the longitude. Both come from the detail when it supplies both, and both from the
  summary when it supplies neither.
\<close>

theorem toRecord_coordinates:
  "latitude (toRecord render summary details) =
     (case detailsLat details of Some v \<Rightarrow> Some v | None \<Rightarrow> summaryLat summary)
   \<and> longitude (toRecord render summary details) =
     (case detailsLng details of Some v \<Rightarrow> Some v | None \<Rightarrow> summaryLng summary)
   \<and> (detailsLat details \<noteq> None \<and> detailsLng details \<noteq> None \<longrightarrow>
        latitude (toRecord render summary details) = detailsLat details
        \<and> longitude (toRecord render summary details) = detailsLng details)
   \<and> (detailsLat details = None \<and> detailsLng details = None \<longrightarrow>
        latitude (toRecord render summary details) = summaryLat summary
        \<and> longitude (toRecord render summary details) = summaryLng summary)"
  by (cases details)
     (auto simp: toRecord_unfold detailsLat_def detailsLng_def summaryLat_def summaryLng_def
           split: option.splits)

text \<open>
  For C6: a detail with both coordinates supplies both, and without a detail both come
  from the summary.
\<close>

theorem toRecord_coordinates_witness:
  "detailsLat (Some (emptyDetails \<lparr> PlaceDetails.geometry := point (Some (Finite 3)) (Some (Finite 4)) \<rparr>)) \<noteq> None
   \<and> detailsLng (Some (emptyDetails \<lparr> PlaceDetails.geometry := point (Some (Finite 3)) (Some (Finite 4)) \<rparr>)) \<noteq> None
   \<and> latitude (toRecord noDigits (bareSummary ''p1'' \<lparr> TextSearchPlace.geometry := point (Some (Finite 5)) (Some (Finite 6)) \<rparr>)
        (Some (emptyDetails \<lparr> PlaceDetails.geometry := point (Some (Finite 3)) (Some (Finite 4)) \<rparr>))) = Some (Finite 3)
   \<and> longitude (toRecord noDigits (bareSummary ''p1'' \<lparr> TextSearchPlace.geometry := point (Some (Finite 5)) (Some (Finite 6)) \<rparr>)
        (Some (emptyDetails \<lparr> PlaceDetails.geometry := point (Some (Finite 3)) (Some (Finite 4)) \<rparr>))) = Some (Finite 4)
   \<and> detailsLat None = None \<and> detailsLng None = None
   \<and> latitude (toRecord noDigits (bareSummary ''p1'' \<lparr> TextSearchPlace.geometry := point (Some (Finite 5)) (Some (Finite 6)) \<rparr>) None) = Some (Finite 5)"
  using toRecord_coordinates [of noDigits
      "bareSummary ''p1'' \<lparr> TextSearchPlace.geometry := point (Some (Finite 5)) (Some (Finite 6)) \<rparr>"
      "Some (emptyDetails \<lparr> PlaceDetails.geometry := point (Some (Finite 3)) (Some (Finite 4)) \<rparr>)"]
    toRecord_coordinates [of noDigits
      "bareSummary ''p1'' \<lparr> TextSearchPlace.geometry := point (Some (Finite 5)) (Some (Finite 6)) \<rparr>"
      None]
  by (simp add: detailsLat_def detailsLng_def summaryLat_def summaryLng_def point_def
        emptyDetails_def bareSummary_def)

text \<open>
  Claim C6 as stated fails: when the detail has a latitude but no longitude, the merged
  record takes latitude 1 from the detail and longitude 6 from the summary, where the
  specification's rule gives the summary's pair (5, 6).
\<close>

theorem toRecord_coordinates_mixed:
  "latitude (toRecord noDigits
       (bareSummary ''p1'' \<lparr> TextSearchPlace.geometry := point (Some (Finite 5)) (Some (Finite 6)) \<rparr>)
       (Some (emptyDetails \<lparr> PlaceDetails.geometry := point (Some (Finite 1)) None \<rparr>))) = Some (Finite 1)
   \<and> longitude (toRecord noDigits
       (bareSummary ''p1'' \<lparr> TextSearchPlace.geometry := point (Some (Finite 5)) (Some (Finite 6)) \<rparr>)
       (Some (emptyDetails \<lparr> PlaceDetails.geometry := point (Some (Finite 1)) None \<rparr>))) = Some (Finite 6)
   \<and> specifiedCoordinates (coordinates (Some (Finite 1)) None)
        (coordinates (Some (Finite 5)) (Some (Finite 6))) = Some (Finite 5, Finite 6)"
  by (simp add: toRecord_unfold bareSummary_def point_def specifiedCoordinates_def coordinates_def)

text \<open>
  Claim C8. The map URL of the merged record is the detail's URL when it has one.
  Otherwise, when a latitude and a longitude are both resolved (each from the detail,
  else from the summary), it is the map-search URL built from them and the summary's
  identifier. Otherwise it is absent. When the resolved latitude is 1, the resolved
  longitude 2 and the identifier \<open>p1\<close>, the built URL contains \<open>1,2\<close> and \<open>p1\<close>.
\<close>

theorem toRecord_googleMapsUrl:
  "googleMapsUrl (toRecord render summary details) =
     (case Option.bind details url of
        Some u \<Rightarrow> Some u
      | None \<Rightarrow>
          (case coordinates
                  (case detailsLat details of Some v \<Rightarrow> Some v | None \<Rightarrow> summaryLat summary)
                  (case detailsLng details of Some v \<Rightarrow> Some v | None \<Rightarrow> summaryLng summary) of
             Some (la, lo) \<Rightarrow>
               Some (''https://www.google.com/maps/search/?api=1&query=''
                       @ numberToString render la @ '','' @ numberToString render lo
                       @ ''&query_place_id='' @ place_id summary)
           | None \<Rightarrow> None))
   \<and> (Option.bind details url = None
        \<and> (case detailsLat details of Some v \<Rightarrow> Some v | None \<Rightarrow> summaryLat summary) = Some (Finite 1)
        \<and> (case detailsLng details of Some v \<Rightarrow> Some v | None \<Rightarrow> summaryLng summary) = Some (Finite 2)
        \<and> place_id summary = ''p1'' \<longrightarrow>
          googleMapsUrl (toRecord render summary details) =
            Some ''https://www.google.com/maps/search/?api=1&query=1,2&query_place_id=p1''
          \<and> includes_str ''https://www.google.com/maps/search/?api=1&query=1,2&query_place_id=p1'' ''1,2''
          \<and> includes_str ''https://www.google.com/maps/search/?api=1&query=1,2&query_place_id=p1'' ''p1'')"
proof -
  have general: "googleMapsUrl (toRecord render summary details) =
     (case Option.bind details url of
        Some u \<Rightarrow> Some u
      | None \<Rightarrow>
          (case coordinates
                  (case detailsLat details of Some v \<Rightarrow> Some v | None \<Rightarrow> summaryLat summary)
                  (case detailsLng details of Some v \<Rightarrow> Some v | None \<Rightarrow> summaryLng summary) of
             Some (la, lo) \<Rightarrow>
               Some (''https://www.google.com/maps/search/?api=1&query=''
                       @ numberToString render la @ '','' @ numberToString render lo
                       @ ''&query_place_id='' @ place_id summary)
           | None \<Rightarrow> None))"
    by (cases details)
       (auto simp: toRecord_unfold coordinates_def detailsLat_def detailsLng_def summaryLat_def
          summaryLng_def split: option.splits)
  have contained:
    "includes_str ''https://www.google.com/maps/search/?api=1&query=1,2&query_place_id=p1'' ''1,2''"
    "includes_str ''https://www.google.com/maps/search/?api=1&query=1,2&query_place_id=p1'' ''p1''"
    by simp_all
  have example: "googleMapsUrl (toRecord render summary details) =
            Some ''https://www.google.com/maps/search/?api=1&query=1,2&query_place_id=p1''"
    if "Option.bind details url = None
        \<and> (case detailsLat details of Some v \<Rightarrow> Some v | None \<Rightarrow> summaryLat summary) = Some (Finite 1)
        \<and> (case detailsLng details of Some v \<Rightarrow> Some v | None \<Rightarrow> summaryLng summary) = Some (Finite 2)
        \<and> place_id summary = ''p1''"
    using that by (simp add: general coordinates_def numberToString_1 numberToString_2)
  from general contained example show ?thesis by (intro conjI impI)
qed

text \<open>
  For C8: the specification's example, with the coordinates (1, 2) supplied by the detail
  over the summary's (5, 6); and a detail with a URL of its own, which is taken as it is.
\<close>

theorem toRecord_googleMapsUrl_witness:
  "Option.bind (Some (emptyDetails \<lparr> PlaceDetails.geometry := point (Some (Finite 1)) (Some (Finite 2)) \<rparr>)) url = None
   \<and> detailsLat (Some (emptyDetails \<lparr> PlaceDetails.geometry := point (Some (Finite 1)) (Some (Finite 2)) \<rparr>))
       = Some (Finite 1)
   \<and> detailsLng (Some (emptyDetails \<lparr> PlaceDetails.geometry := point (Some (Finite 1)) (Some (Finite 2)) \<rparr>))
       = Some (Finite 2)
   \<and> place_id (bareSummary ''p1'' \<lparr> TextSearchPlace.geometry := point (Some (Finite 5)) (Some (Finite 6)) \<rparr>) = ''p1''
   \<and> googleMapsUrl (toRecord noDigits
        (bareSummary ''p1'' \<lparr> TextSearchPlace.geometry := point (Some (Finite 5)) (Some (Finite 6)) \<rparr>)
        (Some (emptyDetails \<lparr> PlaceDetails.geometry := point (Some (Finite 1)) (Some (Finite 2)) \<rparr>)))
       = Some ''https://www.google.com/maps/search/?api=1&query=1,2&query_place_id=p1''
   \<and> googleMapsUrl (toRecord noDigits
        (bareSummary ''p1'' \<lparr> TextSearchPlace.geometry := point (Some (Finite 5)) (Some (Finite 6)) \<rparr>)
        (Some (emptyDetails \<lparr> url := Some ''https://maps.google.com/?cid=7'' \<rparr>)))
       = Some ''https://maps.google.com/?cid=7''"
proof -
  let ?summary = "bareSummary ''p1'' \<lparr> TextSearchPlace.geometry := point (Some (Finite 5)) (Some (Finite 6)) \<rparr>"
  let ?details = "Some (emptyDetails \<lparr> PlaceDetails.geometry := point (Some (Finite 1)) (Some (Finite 2)) \<rparr>)"
  have given: "Option.bind ?details url = None"
    "detailsLat ?details = Some (Finite 1)" "detailsLng ?details = Some (Finite 2)"
    "place_id ?summary = ''p1''"
    by (simp_all add: emptyDetails_def detailsLat_def detailsLng_def point_def bareSummary_def)
  have pre: "Option.bind ?details url = None
        \<and> (case detailsLat ?details of Some v \<Rightarrow> Some v | None \<Rightarrow> summaryLat ?summary) = Some (Finite 1)
        \<and> (case detailsLng ?details of Some v \<Rightarrow> Some v | None \<Rightarrow> summaryLng ?summary) = Some (Finite 2)
        \<and> place_id ?summary = ''p1''"
    using given by simp
  have built: "googleMapsUrl (toRecord noDigits ?summary ?details)
       = Some ''https://www.google.com/maps/search/?api=1&query=1,2&query_place_id=p1''"
    by (rule conjunct1 [OF mp [OF conjunct2 [OF toRecord_googleMapsUrl] pre]])
  have own: "googleMapsUrl (toRecord noDigits ?summary
        (Some (emptyDetails \<lparr> url := Some ''https://maps.google.com/?cid=7'' \<rparr>)))
       = Some ''https://maps.google.com/?cid=7''"
    using conjunct1 [OF toRecord_googleMapsUrl [of noDigits ?summary
        "Some (emptyDetails \<lparr> url := Some ''https://maps.google.com/?cid=7'' \<rparr>)"]]
    by (simp add: emptyDetails_def)
  from given built own show ?thesis by simp
qed

section \<open>Properties of \<open>sanitizeMaxResults\<close>\<close>

lemma sanitize_range:
  "\<exists>k::nat. 1 \<le> k \<and> k \<le> 60 \<and> sanitizeMaxResults x = Finite (real k)"
proof (cases x)
  case (JNumber n)
  show ?thesis
  proof (cases n)
    case (Finite r)
    define k where "k = nat (min 60 (max 1 \<lfloor>r\<rfloor>))"
    have "1 \<le> k \<and> k \<le> 60" by (auto simp: k_def)
    moreover have "sanitizeMaxResults x = Finite (real k)"
      by (simp add: JNumber Finite sanitizeMaxResults_def Number_isNaN_def
            MAX_TOTAL_RESULTS_def k_def max_def min_def)
    ultimately show ?thesis by blast
  next
    case NaN
    then show ?thesis using JNumber
      by (intro exI[of _ 60]) (simp add: sanitizeMaxResults_def Number_isNaN_def MAX_TOTAL_RESULTS_def)
  next
    case NegInfinity
    then show ?thesis using JNumber
      by (intro exI[of _ 1]) (simp add: sanitizeMaxResults_def Number_isNaN_def MAX_TOTAL_RESULTS_def)
  next
    case Infinity
    then show ?thesis using JNumber
      by (intro exI[of _ 60]) (simp add: sanitizeMaxResults_def Number_isNaN_def MAX_TOTAL_RESULTS_def)
  qed
qed (auto simp: sanitizeMaxResults_def MAX_TOTAL_RESULTS_def intro!: exI[of _ 60])

lemma sanitize_fixed:
  "1 \<le> k \<Longrightarrow> k \<le> 60 \<Longrightarrow> sanitizeMaxResults (JNumber (Finite (real k))) = Finite (real k)"
  by (simp add: sanitizeMaxResults_def Number_isNaN_def MAX_TOTAL_RESULTS_def max_def min_def)

text \<open>
  Claim C9. \<open>sanitizeMaxResults\<close> is idempotent and always gives an integer from 1 to 60.
  An input that is not a number, or is NaN, gives 60. A finite number gives its floor
  clamped to the range from 1 to 60; positive infinity gives 60 and negative infinity 1.
\<close>

theorem sanitizeMaxResults_clamps:
  "sanitizeMaxResults (JNumber (sanitizeMaxResults x)) = sanitizeMaxResults x
   \<and> (\<exists>k::int. 1 \<le> k \<and> k \<le> 60 \<and> sanitizeMaxResults x = Finite (of_int k))
   \<and> ((\<forall>n. x \<noteq> JNumber n) \<or> x = JNumber NaN \<longrightarrow> sanitizeMaxResults x = Finite 60)
   \<and> sanitizeMaxResults (JNumber (Finite r)) = Finite (of_int (min 60 (max 1 \<lfloor>r\<rfloor>)))
   \<and> sanitizeMaxResults (JNumber Infinity) = Finite 60
   \<and> sanitizeMaxResults (JNumber NegInfinity) = Finite 1"
proof -
  obtain k :: nat where k: "1 \<le> k" "k \<le> 60" "sanitizeMaxResults x = Finite (real k)"
    using sanitize_range by blast
  have idem: "sanitizeMaxResults (JNumber (sanitizeMaxResults x)) = sanitizeMaxResults x"
    using k by (simp add: sanitize_fixed)
  have range: "\<exists>k::int. 1 \<le> k \<and> k \<le> 60 \<and> sanitizeMaxResults x = Finite (of_int k)"
    using k by (intro exI[of _ "int k"]) simp
  have dflt: "(\<forall>n. x \<noteq> JNumber n) \<or> x = JNumber NaN \<longrightarrow> sanitizeMaxResults x = Finite 60"
    by (cases x) (auto simp: sanitizeMaxResults_def Number_isNaN_def MAX_TOTAL_RESULTS_def)
  have fin: "sanitizeMaxResults (JNumber (Finite r)) = Finite (of_int (min 60 (max 1 \<lfloor>r\<rfloor>)))"
    by (simp add: sanitizeMaxResults_def Number_isNaN_def MAX_TOTAL_RESULTS_def max_def min_def)
  have inf: "sanitizeMaxResults (JNumber Infinity) = Finite 60"
    "sanitizeMaxResults (JNumber NegInfinity) = Finite 1"
    by (simp_all add: sanitizeMaxResults_def Number_isNaN_def MAX_TOTAL_RESULTS_def)
  from idem range dflt fin inf show ?thesis by blast
qed

text \<open>
  For C9: a string gives the default, and 3.5 gives 3.
\<close>

theorem sanitizeMaxResults_clamps_witness:
  "(\<forall>n. JString ''40'' \<noteq> JNumber n)
   \<and> sanitizeMaxResults (JString ''40'') = Finite 60
   \<and> sanitizeMaxResults (JNumber (Finite (7 / 2))) = Finite 3"
  using sanitizeMaxResults_clamps [of "JString ''40''" "7 / 2"] by simp

section \<open>Properties of the batching loop\<close>










lemma place_id_bare: "place_id (bareSummary pid) = pid"
  by (simp add: bareSummary_def)

text \<open>
  One turn of the batching loop, case by case.
\<close>

lemma enrich_done:
  "length trimmed \<le> index \<Longrightarrow> enrich env render key trimmed index records = (Inr records, [])"
  by (simp add: enrich.simps)


lemma enrich_fulfilled:
  assumes "index < length trimmed"
    and "Promise_all (batchPromises env index (length (slice trimmed index (index + chunkSize)))) = Inr detailsList"
  shows "enrich env render key trimmed index records =
           (fst (enrich env render key trimmed (index + chunkSize)
                   (records @ map (\<lambda>(summary, offset). toRecord render summary (elementAt detailsList offset))
                                  (zip (slice trimmed index (index + chunkSize))
                                       [0..<length (slice trimmed index (index + chunkSize))]))),
            map (\<lambda>summary. DetailsRequest (place_id summary) key) (slice trimmed index (index + chunkSize))
              @ snd (enrich env render key trimmed (index + chunkSize)
                   (records @ map (\<lambda>(summary, offset). toRecord render summary (elementAt detailsList offset))
                                  (zip (slice trimmed index (index + chunkSize))
                                       [0..<length (slice trimmed index (index + chunkSize))]))))"
  using assms by (subst enrich.simps) (simp add: Let_def split: prod.splits)




section \<open>Properties of the handler\<close>

text \<open>
  The handler once the request has passed validation.
\<close>

lemma POST_valid:
  assumes "nonBlank (apiKey parsed) = Some key" and "nonBlank (query parsed) = Some keyword"
  shows "POST fuel env render (Inr parsed) =
     (case searchWalker fuel env
             (case nonBlank (location parsed) of Some place \<Rightarrow> keyword @ '' in '' @ place | None \<Rightarrow> keyword)
             key (sanitizeMaxResults (maxResults parsed)) 0 [] None of
        (None, searches) \<Rightarrow> (None, searches)
      | (Some (Inl err), searches) \<Rightarrow> (Some (failure err), searches)
      | (Some (Inr summaries), searches) \<Rightarrow>
          (case enrich env render key (slice0 summaries (sanitizeMaxResults (maxResults parsed))) 0 [] of
             (Inl err, lookups) \<Rightarrow> (Some (failure err), searches @ lookups)
           | (Inr records, lookups) \<Rightarrow>
               (Some \<lparr> body = Results records, status = 200 \<rparr>, searches @ lookups)))"
  using assms by (auto simp: POST_def Let_def split: prod.splits option.splits sum.splits)

lemma nonBlank_sample:
  "nonBlank (JString ''key'') = Some ''key''" "nonBlank (JString ''cafe'') = Some ''cafe''"
  "nonBlank JUndefined = None"
  by (simp_all add: nonBlank_def trim_def isWhiteSpace_def)

lemma POST_searchFor:
  "POST fuel env render (searchFor ''key'' ''cafe'' cap) =
     (case searchWalker fuel env ''cafe'' ''key'' (sanitizeMaxResults cap) 0 [] None of
        (None, searches) \<Rightarrow> (None, searches)
      | (Some (Inl err), searches) \<Rightarrow> (Some (failure err), searches)
      | (Some (Inr summaries), searches) \<Rightarrow>
          (case enrich env render ''key'' (slice0 summaries (sanitizeMaxResults cap)) 0 [] of
             (Inl err, lookups) \<Rightarrow> (Some (failure err), searches @ lookups)
           | (Inr records, lookups) \<Rightarrow>
               (Some \<lparr> body = Results records, status = 200 \<rparr>, searches @ lookups)))"
  unfolding searchFor_def
  by (subst POST_valid [where key = "''key''" and keyword = "''cafe''"])
     (auto simp: nonBlank_sample split: prod.splits option.splits sum.splits)

lemma slice0_nat: "slice0 xs (Finite (real k)) = take k xs"
  by (simp add: js_truncate_def Let_def)

declare slice0.simps [simp del]

lemma slice0_60: "slice0 xs (Finite 60) = take 60 xs"
  using slice0_nat [of xs 60] by simp

lemma sanitize_undefined: "sanitizeMaxResults JUndefined = Finite 60"
  by (simp add: sanitizeMaxResults_def MAX_TOTAL_RESULTS_def)

lemma fetch_denied:
  "fetchPlaceDetails (detailsStatus ''REQUEST_DENIED'' None) =
     Inl (Error ''Google Places Details returned status REQUEST_DENIED'')"
  by (simp add: fetchPlaceDetails_def detailsStatus_def nullishOr_def)

lemma guarded_denied: "guardedDetails (detailsStatus ''REQUEST_DENIED'' None) = Inr None"
  by (simp add: guardedDetails_def fetch_denied)

text \<open>
  Claim C7 asks that an access-denied status of the detail endpoint aborts the run. The
  handler does not do so: \<open>fetchPlaceDetails\<close> raises an error whose message is the
  service's own message or \<open>Google Places Details returned status REQUEST_DENIED\<close>, and
  the \<open>catch\<close> of the batch member looks for the words \<open>Request denied\<close>, which only the
  search fetcher writes. With one place found and its lookup denied, the run answers 200
  with the record built from the summary alone.
\<close>

theorem denied_detail_is_absorbed:
  "POST 1 deniedRun noDigits (searchFor ''key'' ''cafe'' JUndefined) =
     (Some \<lparr> body = Results [toRecord noDigits (bareSummary ''p1'') None], status = 200 \<rparr>,
      [TextSearchRequest ''cafe'' None ''key'', DetailsRequest ''p1'' ''key''])"
proof -
  have walk: "searchWalker (Suc 0) deniedRun ''cafe'' ''key'' (Finite 60) 0 [] None =
      (Some (Inr [bareSummary ''p1'']), [TextSearchRequest ''cafe'' None ''key''])"
    by (simp add: searchWalker.simps deniedRun_def okPage_def fetchTextSearchPage_def truthy_def
          textSearchRequest_def)
  have chunk: "slice [bareSummary ''p1''] 0 chunkSize = [bareSummary ''p1'']"
    by (simp add: slice_def chunkSize_def)
  have batch: "Promise_all (batchPromises deniedRun 0
                  (length (slice [bareSummary ''p1''] 0 (0 + chunkSize)))) = Inr [None]"
    by (simp add: chunk batchPromises_def Promise_all_def deniedRun_def guarded_denied)
  have lookups: "enrich deniedRun noDigits ''key'' [bareSummary ''p1''] 0 [] =
      (Inr [toRecord noDigits (bareSummary ''p1'') None], [DetailsRequest ''p1'' ''key''])"
    by (subst enrich_fulfilled [OF _ batch])
       (simp_all add: slice_def chunkSize_def enrich_done elementAt_def place_id_bare)
  show ?thesis
    by (simp add: POST_searchFor sanitize_undefined walk slice0_60 lookups)
qed

section \<open>Properties of the page loop\<close>

lemma searchCount_simps [simp]:
  "searchCount [] = 0"
  "searchCount (xs @ ys) = searchCount xs + searchCount ys"
  "searchCount (Sleep d # xs) = searchCount xs"
  "searchCount (TextSearchRequest q t k # xs) = Suc (searchCount xs)"
  "searchCount (DetailsRequest p k # xs) = searchCount xs"
  by (simp_all add: searchCount_def)

lemma detailsCount_simps [simp]:
  "detailsCount [] = 0"
  "detailsCount (xs @ ys) = detailsCount xs + detailsCount ys"
  "detailsCount (Sleep d # xs) = detailsCount xs"
  "detailsCount (TextSearchRequest q t k # xs) = detailsCount xs"
  "detailsCount (DetailsRequest p k # xs) = Suc (detailsCount xs)"
  by (simp_all add: detailsCount_def)

lemma detailsCount_requests [simp]:
  "detailsCount (map (\<lambda>summary. DetailsRequest (place_id summary) key) chunk) = length chunk"
  by (induction chunk) simp_all

lemma searchCount_requests [simp]:
  "searchCount (map (\<lambda>summary. DetailsRequest (place_id summary) key) chunk) = 0"
  by (induction chunk) simp_all

text \<open>One turn of the page loop, case by case.\<close>

lemma turnEffects_counts [simp]:
  "searchCount (turnEffects q key tok) = 1" "detailsCount (turnEffects q key tok) = 0"
  by (simp_all add: turnEffects_def textSearchRequest_def)

lemma walker_failed:
  assumes "fetchTextSearchPage (textSearchReply env n) = Inl err"
  shows "searchWalker (Suc fuel) env q key cap n summaries tok = (Some (Inl err), turnEffects q key tok)"
  using assms by (simp add: searchWalker.simps turnEffects_def)

lemma walker_last:
  assumes "fetchTextSearchPage (textSearchReply env n) = Inr page"
    and "\<not> (truthy (next_page_token page)
            \<and> js_less (js_length (summaries @ results page)) cap
            \<and> js_less (js_length (summaries @ results page)) MAX_TOTAL_RESULTS)"
  shows "searchWalker (Suc fuel) env q key cap n summaries tok =
           (Some (Inr (summaries @ results page)), turnEffects q key tok)"
  using assms by (auto simp: searchWalker.simps turnEffects_def Let_def)

lemma walker_next:
  assumes "fetchTextSearchPage (textSearchReply env n) = Inr page"
    and "truthy (next_page_token page)"
    and "js_less (js_length (summaries @ results page)) cap"
    and "js_less (js_length (summaries @ results page)) MAX_TOTAL_RESULTS"
  shows "searchWalker (Suc fuel) env q key cap n summaries tok =
           (fst (searchWalker fuel env q key cap (Suc n) (summaries @ results page) (next_page_token page)),
            turnEffects q key tok
              @ snd (searchWalker fuel env q key cap (Suc n) (summaries @ results page) (next_page_token page)))"
  using assms by (simp add: searchWalker.simps turnEffects_def Let_def split: prod.splits)

lemma walker_cases:
  obtains
    (failed) err where "fetchTextSearchPage (textSearchReply env n) = Inl err"
  | (last) page where "fetchTextSearchPage (textSearchReply env n) = Inr page"
      "\<not> (truthy (next_page_token page)
            \<and> js_less (js_length (summaries @ results page)) cap
            \<and> js_less (js_length (summaries @ results page)) MAX_TOTAL_RESULTS)"
  | (more) page where "fetchTextSearchPage (textSearchReply env n) = Inr page"
      "truthy (next_page_token page)"
      "js_less (js_length (summaries @ results page)) cap"
      "js_less (js_length (summaries @ results page)) MAX_TOTAL_RESULTS"
  by (cases "fetchTextSearchPage (textSearchReply env n)") blast+



lemma walker_overshoot:
  assumes "fst (searchWalker fuel env q key cap n summaries tok) = Some (Inr collected)"
  shows "\<exists>before m page.
           collected = before @ results page
           \<and> fetchTextSearchPage (textSearchReply env m) = Inr page
           \<and> (before = summaries
               \<or> (js_less (js_length before) cap \<and> js_less (js_length before) MAX_TOTAL_RESULTS))"
  using assms
proof (induction fuel arbitrary: n summaries tok)
  case 0
  then show ?case by (simp add: searchWalker.simps)
next
  case (Suc fuel)
  show ?case
  proof (cases rule: walker_cases [where env = env and n = n and summaries = summaries and cap = cap])
    case (failed err)
    with Suc.prems show ?thesis by (simp add: walker_failed)
  next
    case (last page)
    with Suc.prems have "collected = summaries @ results page" by (simp add: walker_last)
    with last show ?thesis by blast
  next
    case (more page)
    with Suc.prems have "fst (searchWalker fuel env q key cap (Suc n)
        (summaries @ results page) (next_page_token page)) = Some (Inr collected)"
      by (simp add: walker_next)
    from Suc.IH [OF this] obtain before m page' where
      "collected = before @ results page'"
      "fetchTextSearchPage (textSearchReply env m) = Inr page'"
      "before = summaries @ results page
         \<or> (js_less (js_length before) cap \<and> js_less (js_length before) MAX_TOTAL_RESULTS)"
      by blast
    with more show ?thesis by blast
  qed
qed

text \<open>
  Claim C10. For a request that passes validation, when the first search reply carries
  the status \<open>ZERO_RESULTS\<close>, no results and no continuation token, the handler answers
  200 with an empty result list, after one text search request and no detail request.
\<close>

theorem zero_results_is_success:
  assumes "nonBlank (apiKey parsed) = Some key" and "nonBlank (query parsed) = Some keyword"
    and "textSearchReply env 0 = Response True code (Inr page)"
    and "SearchPayload.status page = ''ZERO_RESULTS''"
    and "results page = []" and "next_page_token page = None"
  shows "POST (Suc fuel) env render (Inr parsed) =
           (Some \<lparr> body = Results [], status = 200 \<rparr>,
            [TextSearchRequest
               (case nonBlank (location parsed) of Some place \<Rightarrow> keyword @ '' in '' @ place | None \<Rightarrow> keyword)
               None key])
         \<and> detailsCount (snd (POST (Suc fuel) env render (Inr parsed))) = 0"
proof -
  have page: "fetchTextSearchPage (textSearchReply env 0) = Inr page"
    using assms(3,4) by (simp add: fetchTextSearchPage_def)
  have stop: "\<not> (truthy (next_page_token page)
            \<and> js_less (js_length ([] @ results page)) cap
            \<and> js_less (js_length ([] @ results page)) MAX_TOTAL_RESULTS)" for cap
    using assms(6) by (simp add: truthy_def)
  have walk: "searchWalker (Suc fuel) env q key cap 0 [] None =
      (Some (Inr []), [TextSearchRequest q None key])" for q cap
    using walker_last [OF page stop, where fuel = fuel and q = q and key = key and tok = None and cap = cap]
      assms(5)
    by (simp add: turnEffects_def truthy_def textSearchRequest_def)
  have none: "slice0 [] cap = []" for cap :: jsnum
    by (cases cap) (simp_all add: slice0.simps Let_def js_truncate_def)
  have run: "POST (Suc fuel) env render (Inr parsed) =
           (Some \<lparr> body = Results [], status = 200 \<rparr>,
            [TextSearchRequest
               (case nonBlank (location parsed) of Some place \<Rightarrow> keyword @ '' in '' @ place | None \<Rightarrow> keyword)
               None key])"
    by (simp add: POST_valid [OF assms(1,2)] walk none enrich_done)
  then show ?thesis by simp
qed

text \<open>
  For C10: a search for \<open>cafe\<close> against a service that finds nothing.
\<close>

theorem zero_results_is_success_witness:
  "POST (Suc 0) emptyRun noDigits (searchFor ''key'' ''cafe'' JUndefined) =
     (Some \<lparr> body = Results [], status = 200 \<rparr>, [TextSearchRequest ''cafe'' None ''key''])"
proof -
  have reply: "textSearchReply emptyRun 0 =
      Response True 200 (Inr \<lparr> SearchPayload.status = ''ZERO_RESULTS'', results = [],
                                next_page_token = None, SearchPayload.error_message = None \<rparr>)"
    by (simp add: emptyRun_def searchStatus_def)
  from zero_results_is_success [where parsed = "\<lparr> apiKey = JString ''key'', query = JString ''cafe'',
        location = JUndefined, maxResults = JUndefined \<rparr>" and key = "''key''" and keyword = "''cafe''",
      OF _ _ reply, of 0 noDigits]
  show ?thesis by (simp add: nonBlank_sample searchFor_def)
qed

lemma crowded_page:
  "fetchTextSearchPage (textSearchReply crowdedRun n) =
     Inr \<lparr> SearchPayload.status = ''OK'', results = replicate 25 (bareSummary ''p''),
           next_page_token = Some ''next'', SearchPayload.error_message = None \<rparr>"
  by (simp add: crowdedRun_def okPage_def fetchTextSearchPage_def)

lemma crowded_walk:
  "fst (searchWalker 3 crowdedRun ''cafe'' ''key'' (sanitizeMaxResults JUndefined) 0 [] None) =
     Some (Inr (replicate 25 (bareSummary ''p'') @ replicate 25 (bareSummary ''p'')
                  @ replicate 25 (bareSummary ''p'')))"
proof -
  have third: "fst (searchWalker (Suc 0) crowdedRun ''cafe'' ''key'' (Finite 60) (Suc (Suc 0))
                  (replicate 25 (bareSummary ''p'') @ replicate 25 (bareSummary ''p'')) (Some ''next'')) =
     Some (Inr (replicate 25 (bareSummary ''p'') @ replicate 25 (bareSummary ''p'')
                  @ replicate 25 (bareSummary ''p'')))"
    by (subst walker_last [OF crowded_page])
       (simp_all add: js_length_def MAX_TOTAL_RESULTS_def)
  have second: "fst (searchWalker (Suc (Suc 0)) crowdedRun ''cafe'' ''key'' (Finite 60) (Suc 0)
                  (replicate 25 (bareSummary ''p'')) (Some ''next'')) =
     Some (Inr (replicate 25 (bareSummary ''p'') @ replicate 25 (bareSummary ''p'')
                  @ replicate 25 (bareSummary ''p'')))"
    by (subst walker_next [OF crowded_page])
       (simp_all add: js_length_def MAX_TOTAL_RESULTS_def truthy_def third)
  have first: "fst (searchWalker (Suc (Suc (Suc 0))) crowdedRun ''cafe'' ''key'' (Finite 60) 0 [] None) =
     Some (Inr (replicate 25 (bareSummary ''p'') @ replicate 25 (bareSummary ''p'')
                  @ replicate 25 (bareSummary ''p'')))"
    by (subst walker_next [OF crowded_page])
       (simp_all add: js_length_def MAX_TOTAL_RESULTS_def truthy_def second)
  then show ?thesis by (simp add: sanitize_undefined numeral_3_eq_3)
qed

text \<open>
  Claim C4 as stated fails: the loop tests its bounds after a page has been pushed. With
  pages of 25 places and tokens, the count is 50 after the second page, which is below
  60, so a third page is fetched and 75 summaries are collected.
\<close>

theorem walker_exceeds_ceiling:
  "fst (searchWalker 3 crowdedRun ''cafe'' ''key'' (sanitizeMaxResults JUndefined) 0 [] None) =
     Some (Inr (replicate 25 (bareSummary ''p'') @ replicate 25 (bareSummary ''p'')
                  @ replicate 25 (bareSummary ''p'')))
   \<and> length (replicate 25 (bareSummary ''p'') @ replicate 25 (bareSummary ''p'')
               @ replicate 25 (bareSummary ''p'')) = 75"
  using crowded_walk by simp

text \<open>
  Claim C4, as the code has it. When the page loop ends with its collection, the
  summaries kept by the trimming that follows are at most 60: they are the first \<open>k\<close> of
  the collection, where \<open>k\<close> is the sanitised maximum, between 1 and 60. The collection
  itself is the results of its last page appended to fewer than \<open>k\<close> summaries, so it
  passes the ceiling by less than the size of one page.
\<close>

theorem walker_within_ceiling:
  assumes "fst (searchWalker fuel env q key (sanitizeMaxResults raw) 0 [] None) = Some (Inr summaries)"
  shows "length (slice0 summaries (sanitizeMaxResults raw)) \<le> 60
         \<and> (\<exists>k before m page.
               sanitizeMaxResults raw = Finite (real k) \<and> 1 \<le> k \<and> k \<le> 60
               \<and> slice0 summaries (sanitizeMaxResults raw) = take k summaries
               \<and> summaries = before @ results page
               \<and> fetchTextSearchPage (textSearchReply env m) = Inr page
               \<and> length before < k)"
proof -
  obtain k :: nat where k: "1 \<le> k" "k \<le> 60" "sanitizeMaxResults raw = Finite (real k)"
    using sanitize_range by blast
  from walker_overshoot [OF assms] obtain before m page where
    parts: "summaries = before @ results page"
      "fetchTextSearchPage (textSearchReply env m) = Inr page"
      "before = [] \<or> (js_less (js_length before) (sanitizeMaxResults raw)
                        \<and> js_less (js_length before) MAX_TOTAL_RESULTS)"
    by blast
  from parts(3) k have short: "length before < k"
    by (auto simp: js_length_def)
  have trimmed: "slice0 summaries (sanitizeMaxResults raw) = take k summaries"
    by (simp add: k(3) slice0_nat)
  have "length (slice0 summaries (sanitizeMaxResults raw)) \<le> 60"
    using k(2) by (simp add: trimmed)
  with k parts(1,2) short trimmed show ?thesis by blast
qed

text \<open>
  For C4: of the 75 summaries collected from pages of 25, at most 60 are kept.
\<close>

theorem walker_within_ceiling_witness:
  "length (slice0 (replicate 25 (bareSummary ''p'') @ replicate 25 (bareSummary ''p'')
                     @ replicate 25 (bareSummary ''p'')) (sanitizeMaxResults JUndefined)) \<le> 60"
  using walker_within_ceiling [OF crowded_walk] by blast

section \<open>Quota replies\<close>































end
